theory Spec2Isabelle
  imports Main "HOL-Library.Word" "HOL-Library.Sublist"
begin

unbundle bit_operations_syntax

section \<open>Package validate: the image trust validation engine\<close>

subsection \<open>Errors\<close>

text \<open>
  Go errors are modelled by their message. The two constructors of package \<open>pkg\<close>
  (\<open>NewValidationFailedErr\<close>, \<open>NewUnknownResultErr\<close>) classify an error; they are the
  two constructors of \<open>error\<close>, each carrying the message of the error it was given.
  \<open>errors.Wrap(err, msg)\<close> has the message \<open>msg: err\<close>.
\<close>

datatype error = ValidationFailedErr string | UnknownResultErr string

definition Wrap :: "string \<Rightarrow> string \<Rightarrow> string" where
  "Wrap err msg = msg @ '': '' @ err"

subsection \<open>Strings\<close>

text \<open>\<open>strings.HasPrefix(s, prefix)\<close>: \<open>len(s) >= len(prefix) && s[:len(prefix)] == prefix\<close>.\<close>

definition HasPrefix :: "string \<Rightarrow> string \<Rightarrow> bool" where
  "HasPrefix s pre = (length pre \<le> length s \<and> take (length pre) s = pre)"

text \<open>\<open>strings.Contains(s, substr)\<close>: some suffix of \<open>s\<close> starts with \<open>substr\<close>.\<close>

fun Contains :: "string \<Rightarrow> string \<Rightarrow> bool" where
  "Contains [] substr = (substr = [])"
| "Contains (c # cs) substr = (HasPrefix (c # cs) substr \<or> Contains cs substr)"

text \<open>
  \<open>strings.Split(s, sep)\<close> for a separator of one character: the pieces between the
  occurrences of the separator, always at least one piece.
\<close>

fun Split :: "string \<Rightarrow> char \<Rightarrow> string list" where
  "Split [] sep = [[]]"
| "Split (c # cs) sep =
     (if c = sep then [] # Split cs sep
      else (case Split cs sep of
              [] \<Rightarrow> [[c]]
            | piece # pieces \<Rightarrow> (c # piece) # pieces))"

subsection \<open>Digests and their comparison\<close>

type_synonym byte = "8 word"

text \<open>
  \<open>subtle.ConstantTimeByteEq(x, y)\<close> is \<open>int((uint32(x^y) - 1) >> 31)\<close>, and
  \<open>subtle.ConstantTimeCompare(x, y)\<close> returns 0 when the lengths differ and otherwise
  folds \<open>v |= x[i] ^ y[i]\<close> over all positions and returns \<open>ConstantTimeByteEq(v, 0)\<close>.
\<close>

definition ConstantTimeByteEq :: "byte \<Rightarrow> byte \<Rightarrow> int" where
  "ConstantTimeByteEq x y = uint (drop_bit 31 ((ucast (x XOR y) :: 32 word) - 1))"

fun ConstantTimeCompare_loop :: "byte \<Rightarrow> byte list \<Rightarrow> byte list \<Rightarrow> byte" where
  "ConstantTimeCompare_loop v (a # x) (b # y) = ConstantTimeCompare_loop (v OR (a XOR b)) x y"
| "ConstantTimeCompare_loop v x y = v"

definition ConstantTimeCompare :: "byte list \<Rightarrow> byte list \<Rightarrow> int" where
  "ConstantTimeCompare x y =
     (if length x \<noteq> length y then 0
      else ConstantTimeByteEq (ConstantTimeCompare_loop 0 x y) 0)"

subsection \<open>Data of the external collaborators\<close>

text \<open>
  A parsed \<open>name.Reference\<close>, by the three strings the engine reads from it:
  \<open>ref.Context().RegistryStr()\<close>, \<open>ref.Context().Name()\<close> and \<open>ref.Identifier()\<close>.
\<close>

record Reference =
  RegistryStr :: string
  ContextName :: string
  Identifier :: string

text \<open>The fields of \<open>cliType.AuthConfig\<close> that \<open>parseCredentials\<close> reads.\<close>

record AuthConfig =
  Username :: string
  Password :: string
  Auth :: string
  RegistryToken :: string

datatype Authenticator = Basic string string | Bearer string

text \<open>
  The trust authority's target: \<open>Hashes\<close> is a Go map from algorithm name to digest,
  given by its entries (the keys of a Go map are distinct).
\<close>

record Target =
  Hashes :: "(string \<times> byte list) list"

text \<open>A repository client is its method \<open>GetTargetByName\<close>.\<close>

type_synonym RepoClient = "string \<Rightarrow> string + Target"

text \<open>The descriptor of \<open>remote.Get\<close>, by the two tests made on its media type.\<close>

record Descriptor =
  IsIndex :: bool
  IsImage :: bool

text \<open>
  A remote index and a remote image, by the results of the methods called on them:
  \<open>Digest()\<close> gives an error or the hex string of the digest, \<open>Manifest()\<close> an error or
  the hex string of the manifest's config digest.
\<close>

record RemoteIndex =
  IndexDigest :: "string + string"

record RemoteImage =
  Manifest :: "string + string"
  ImageDigest :: "string + string"

text \<open>
  The libraries and the registry the engine calls: strict reference parsing, base64 and
  hex decoding (an error message or the result), and the three registry fetches, each
  a function of the reference and of the remote options (the authenticators).
\<close>

record env =
  ParseReference :: "string \<Rightarrow> string + Reference"
  base64_DecodeString :: "string \<Rightarrow> string + string"
  hex_DecodeString :: "string \<Rightarrow> string + byte list"
  remote_Get :: "Reference \<Rightarrow> Authenticator list \<Rightarrow> string + Descriptor"
  remote_Index :: "Reference \<Rightarrow> Authenticator list \<Rightarrow> string + RemoteIndex"
  remote_Image :: "Reference \<Rightarrow> Authenticator list \<Rightarrow> string + RemoteImage"

text \<open>The outbound calls of a validation, in the order they are made.\<close>

datatype call =
    NewRepoClient string
  | GetTargetByName string
  | RemoteGet Reference "Authenticator list"
  | RemoteIndex Reference "Authenticator list"
  | RemoteImage Reference "Authenticator list"

record ServiceConfig =
  NotaryConfig :: string
  AllowedRegistries :: "string list"

record notaryService = ServiceConfig +
  RepoFactory :: "string \<Rightarrow> string \<Rightarrow> string + RepoClient"

subsection \<open>The allow list\<close>

fun isImageAllowed_loop :: "string list \<Rightarrow> string \<Rightarrow> bool" where
  "isImageAllowed_loop [] imgRepo = False"
| "isImageAllowed_loop (allowed # rest) imgRepo =
     (if HasPrefix imgRepo allowed then True else isImageAllowed_loop rest imgRepo)"

definition isImageAllowed :: "notaryService \<Rightarrow> string \<Rightarrow> bool" where
  "isImageAllowed s imgRepo = isImageAllowed_loop (AllowedRegistries s) imgRepo"

subsection \<open>Credentials\<close>

definition parseCredentials :: "env \<Rightarrow> AuthConfig \<Rightarrow> error + Authenticator" where
  "parseCredentials w credentials =
     (if Username credentials \<noteq> [] \<and> Password credentials \<noteq> [] then
        Inr (Basic (Username credentials) (Password credentials))
      else if RegistryToken credentials \<noteq> [] then
        Inr (Bearer (RegistryToken credentials))
      else if Auth credentials \<noteq> [] then
        (case base64_DecodeString w (Auth credentials) of
           Inl err \<Rightarrow> Inl (ValidationFailedErr (Wrap err ''cannot decode base64 encoded auth''))
         | Inr decodedCredentials \<Rightarrow>
             (case Split decodedCredentials (CHR '':'') of
                [user, password] \<Rightarrow> Inr (Basic user password)
              | _ \<Rightarrow> Inl (ValidationFailedErr
                         ''invalid auth format, expected username:password form'')))
      else Inl (ValidationFailedErr ''unknown auth secret format''))"

subsection \<open>The registry digests\<close>

definition getIndexDigestHash ::
  "env \<Rightarrow> Reference \<Rightarrow> Authenticator list \<Rightarrow> (error + byte list) \<times> call list" where
  "getIndexDigestHash w ref remoteOptions =
     (case remote_Index w ref remoteOptions of
        Inl err \<Rightarrow> Inl (UnknownResultErr (Wrap err ''get image''))
      | Inr i \<Rightarrow>
          (case IndexDigest i of
             Inl err \<Rightarrow> Inl (UnknownResultErr (Wrap err ''image digest''))
           | Inr hex \<Rightarrow>
               (case hex_DecodeString w hex of
                  Inl err \<Rightarrow> Inl (UnknownResultErr (Wrap err ''checksum error: %w''))
                | Inr digestBytes \<Rightarrow> Inr digestBytes)),
      [RemoteIndex ref remoteOptions])"

definition getImageDigestHash ::
  "env \<Rightarrow> Reference \<Rightarrow> Authenticator list \<Rightarrow>
     (error + byte list \<times> byte list) \<times> call list" where
  "getImageDigestHash w ref remoteOptions =
     (case remote_Image w ref remoteOptions of
        Inl err \<Rightarrow> Inl (UnknownResultErr (Wrap err ''get image''))
      | Inr i \<Rightarrow>
          (case Manifest i of
             Inl err \<Rightarrow> Inl (UnknownResultErr (Wrap err ''image manifest''))
           | Inr configHex \<Rightarrow>
               (case hex_DecodeString w configHex of
                  Inl err \<Rightarrow> Inl (UnknownResultErr (Wrap err ''manifest checksum error: %w''))
                | Inr manifestBytes \<Rightarrow>
                    (case ImageDigest i of
                       Inl err \<Rightarrow> Inl (UnknownResultErr (Wrap err ''image digest''))
                     | Inr hex \<Rightarrow>
                         (case hex_DecodeString w hex of
                            Inl err \<Rightarrow> Inl (UnknownResultErr (Wrap err ''checksum error: %w''))
                          | Inr digestBytes \<Rightarrow> Inr (digestBytes, manifestBytes))))),
      [RemoteImage ref remoteOptions])"

text \<open>
  The second half of \<open>getRepositoryDigestHash\<close>: the branch on the descriptor's media
  type. The legacy manifest digest is \<open>None\<close> where the code returns \<open>nil\<close> for it.
\<close>

definition digestByMediaType ::
  "env \<Rightarrow> Reference \<Rightarrow> Authenticator list \<Rightarrow> Descriptor \<Rightarrow>
     (error + byte list \<times> byte list option) \<times> call list" where
  "digestByMediaType w ref remoteOptions descriptor =
     (if IsIndex descriptor then
        (case getIndexDigestHash w ref remoteOptions of
           (Inl err, t) \<Rightarrow> (Inl err, t)
         | (Inr digest, t) \<Rightarrow> (Inr (digest, None), t))
      else if IsImage descriptor then
        (case getImageDigestHash w ref remoteOptions of
           (Inl err, t) \<Rightarrow> (Inl err, t)
         | (Inr (digest, manifest), t) \<Rightarrow> (Inr (digest, Some manifest), t))
      else (Inl (ValidationFailedErr ''not an image or image list''), []))"

text \<open>
  \<open>parseCredentials\<close> never returns a nil authenticator without an error, so the test
  \<open>credentials != nil\<close> before \<open>remote.WithAuth\<close> always passes.
\<close>

definition getRepositoryDigestHash ::
  "env \<Rightarrow> Reference \<Rightarrow> (string \<rightharpoonup> AuthConfig) \<Rightarrow>
     (error + byte list \<times> byte list option) \<times> call list" where
  "getRepositoryDigestHash w ref imagePullCredentials =
     (case remote_Get w ref [] of
        Inr descriptor \<Rightarrow>
          (case digestByMediaType w ref [] descriptor of
             (r, t) \<Rightarrow> (r, RemoteGet ref [] # t))
      | Inl err \<Rightarrow>
          (case imagePullCredentials (RegistryStr ref) of
             None \<Rightarrow>
               (Inl (UnknownResultErr (Wrap err ''get image descriptor anonymously'')),
                [RemoteGet ref []])
           | Some credentials \<Rightarrow>
               (case parseCredentials w credentials of
                  Inl err' \<Rightarrow> (Inl err', [RemoteGet ref []])
                | Inr auth \<Rightarrow>
                    (case remote_Get w ref [auth] of
                       Inl err' \<Rightarrow>
                         (Inl (UnknownResultErr (Wrap err' ''get image descriptor'')),
                          [RemoteGet ref [], RemoteGet ref [auth]])
                     | Inr descriptor \<Rightarrow>
                         (case digestByMediaType w ref [auth] descriptor of
                            (r, t) \<Rightarrow>
                              (r, RemoteGet ref [] # RemoteGet ref [auth] # t))))))"

subsection \<open>The trust authority's digest\<close>

definition parseNotaryErr :: "string \<Rightarrow> error" where
  "parseNotaryErr err =
     (if Contains err ''does not have trust data for'' then ValidationFailedErr err
      else if Contains err ''No valid trust data for'' then ValidationFailedErr err
      else UnknownResultErr err)"

text \<open>
  The part of \<open>getNotaryImageDigestHash\<close> after the target was fetched. The loop
  \<open>for i := range target.Hashes { key = i }\<close> leaves in \<open>key\<close> the last key visited,
  and \<open>target.Hashes[key]\<close> looks it up.
\<close>

definition targetDigest :: "Target \<Rightarrow> error + byte list" where
  "targetDigest target =
     (if length (Hashes target) = 0 then Inl (ValidationFailedErr ''image hash is missing'')
      else if length (Hashes target) > 1 then
        Inl (ValidationFailedErr ''more than one hash for image'')
      else
        (let key = fold (\<lambda>(i, _) _. i) (Hashes target) [] in
         case map_of (Hashes target) key of
           None \<Rightarrow> Inr []
         | Some digest \<Rightarrow> Inr digest))"

definition getNotaryImageDigestHash ::
  "notaryService \<Rightarrow> Reference \<Rightarrow> (error + byte list) \<times> call list" where
  "getNotaryImageDigestHash s ref =
     (case RepoFactory s (ContextName ref) (NotaryConfig s) of
        Inl err \<Rightarrow> (Inl (UnknownResultErr err), [NewRepoClient (ContextName ref)])
      | Inr c \<Rightarrow>
          (case c (Identifier ref) of
             Inl err \<Rightarrow> Inl (parseNotaryErr err)
           | Inr target \<Rightarrow> targetDigest target,
           [NewRepoClient (ContextName ref), GetTargetByName (Identifier ref)]))"

subsection \<open>Validate\<close>

text \<open>The result is the error returned (\<open>None\<close> for \<open>nil\<close>) and the outbound calls made.\<close>

definition Validate ::
  "env \<Rightarrow> notaryService \<Rightarrow> string \<Rightarrow> (string \<rightharpoonup> AuthConfig) \<Rightarrow>
     error option \<times> call list" where
  "Validate w s img imagePullCredentials =
     (if isImageAllowed s img then (None, [])
      else
        (case ParseReference w img of
           Inl err \<Rightarrow>
             (Some (ValidationFailedErr (Wrap err ''image name could not be parsed'')), [])
         | Inr ref \<Rightarrow>
             (case getNotaryImageDigestHash s ref of
                (Inl err, t1) \<Rightarrow> (Some err, t1)
              | (Inr expectedShaBytes, t1) \<Rightarrow>
                  (case getRepositoryDigestHash w ref imagePullCredentials of
                     (Inl err, t2) \<Rightarrow> (Some err, t1 @ t2)
                   | (Inr (shaImageBytes, shaManifestBytes), t2) \<Rightarrow>
                       (if ConstantTimeCompare shaImageBytes expectedShaBytes = 1 then None
                        else if (case shaManifestBytes of
                                   None \<Rightarrow> False
                                 | Some manifest \<Rightarrow>
                                     ConstantTimeCompare manifest expectedShaBytes = 1)
                        then None
                        else Some (ValidationFailedErr ''unexpected image hash value''),
                        t1 @ t2)))))"

section \<open>Package admission: the defaulting webhook\<close>

text \<open>
  \<open>validate.ValidationResult\<close> with its four named values; \<open>Unrecognized\<close> stands for
  any other value of the type.
\<close>

datatype ValidationResult = NoAction | Invalid | Valid | ServiceUnavailable | Unrecognized string

text \<open>
  The label constants of package \<open>pkg\<close> (\<open>PodValidationLabel\<close> and the three status
  values) are parameters of the model.
\<close>

record pkg_consts =
  PodValidationLabel :: string
  ValidationStatusReject :: string
  ValidationStatusSuccess :: string
  ValidationStatusPending :: string

text \<open>
  A pod, by its name, namespace, label map (\<open>None\<close> for a nil map) and the images of
  its containers.
\<close>

record Pod =
  PodName :: string
  PodNamespace :: string
  Labels :: "(string \<rightharpoonup> string) option"
  Images :: "string list"

record Namespace =
  NamespaceName :: string

text \<open>An admission request, by \<open>req.Kind.Kind\<close> and \<open>req.Object.Raw\<close>.\<close>

record Request =
  Kind :: string
  Raw :: string

text \<open>
  An admission response: \<open>admission.Errored(code, err)\<close>, \<open>admission.Allowed(message)\<close>
  or \<open>admission.PatchResponseFromRaw(original, current)\<close>, the allowed response whose
  JSON patch is the difference between the two documents.
\<close>

datatype Response =
    Errored nat string
  | Allowed string
  | PatchResponseFromRaw string string

text \<open>
  The collaborators of the webhook: the decoder, the cluster client's namespace lookup,
  the pod validator and \<open>json.Marshal\<close> on pods, each an error message or a result;
  and the configured timeout, a \<open>time.Duration\<close> in nanoseconds.
\<close>

record DefaultingWebHook =
  decoder_Decode :: "Request \<Rightarrow> string + Pod"
  client_Get :: "string \<Rightarrow> string + Namespace"
  ValidatePod :: "Pod \<Rightarrow> Namespace \<Rightarrow> string + ValidationResult"
  json_Marshal :: "Pod \<Rightarrow> string + string"
  timeout :: int

definition PodType :: string where
  "PodType = ''Pod''"

definition StatusBadRequest :: nat where
  "StatusBadRequest = 400"

definition StatusInternalServerError :: nat where
  "StatusInternalServerError = 500"


fun LabelForValidationResult :: "pkg_consts \<Rightarrow> ValidationResult \<Rightarrow> string" where
  "LabelForValidationResult k NoAction = []"
| "LabelForValidationResult k Invalid = ValidationStatusReject k"
| "LabelForValidationResult k Valid = ValidationStatusSuccess k"
| "LabelForValidationResult k ServiceUnavailable = ValidationStatusPending k"
| "LabelForValidationResult k (Unrecognized v) = ValidationStatusPending k"

definition labelPod :: "pkg_consts \<Rightarrow> ValidationResult \<Rightarrow> Pod \<Rightarrow> Pod" where
  "labelPod k result pod =
     (let labelToApply = LabelForValidationResult k result in
      if labelToApply = [] then pod
      else
        (let labels = (case Labels pod of None \<Rightarrow> Map.empty | Some m \<Rightarrow> m) in
         pod\<lparr>Labels := Some (labels(PodValidationLabel k \<mapsto> labelToApply))\<rparr>))"

definition handle :: "pkg_consts \<Rightarrow> DefaultingWebHook \<Rightarrow> Request \<Rightarrow> Response" where
  "handle k w req =
     (if Kind req \<noteq> PodType then
        Errored StatusBadRequest
          (''Invalid request kind:'' @ Kind req @ '', expected:'' @ PodType)
      else
        (case decoder_Decode w req of
           Inl err \<Rightarrow> Errored StatusInternalServerError err
         | Inr pod \<Rightarrow>
             (case client_Get w (PodNamespace pod) of
                Inl err \<Rightarrow> Errored StatusInternalServerError err
              | Inr ns \<Rightarrow>
                  (case ValidatePod w pod ns of
                     Inl err \<Rightarrow> Errored StatusInternalServerError err
                   | Inr result \<Rightarrow>
                       (if result = NoAction then Allowed ''validation is not enabled for pod''
                        else
                          (case json_Marshal w (labelPod k result pod) of
                             Inl err \<Rightarrow> Errored StatusInternalServerError err
                           | Inr fBytes \<Rightarrow> PatchResponseFromRaw (Raw req) fBytes))))))"



section \<open>Concrete collaborators for the examples\<close>

text \<open>
  A reference \<open>registry.example/app:v1\<close>, a trust authority that records the given
  hashes for it, and a registry that serves one image anonymously: its digest is the
  hex string \<open>01\<close>, its config digest the hex string \<open>03\<close>. The two decoders know the
  few strings the examples use.
\<close>

definition ex_ref :: Reference where
  "ex_ref = \<lparr>RegistryStr = ''registry.example'', ContextName = ''registry.example/app'',
              Identifier = ''v1''\<rparr>"

definition ex_hex :: "string \<Rightarrow> string + byte list" where
  "ex_hex h =
     (if h = ''01'' then Inr [1] else if h = ''02'' then Inr [2]
      else if h = ''03'' then Inr [3] else Inl ''encoding/hex: invalid byte'')"

definition ex_base64 :: "string \<Rightarrow> string + string" where
  "ex_base64 a =
     (if a = ''dTpw'' then Inr ''u:p'' else if a = ''bm9wYWly'' then Inr ''nopair''
      else Inl ''illegal base64 data at input byte 0'')"

definition ex_env :: env where
  "ex_env =
     \<lparr>ParseReference =
        (\<lambda>s. if s = ''registry.example/app:v1'' then Inr ex_ref
             else Inl ''could not parse reference''),
      base64_DecodeString = ex_base64,
      hex_DecodeString = ex_hex,
      remote_Get = (\<lambda>r opts. Inr \<lparr>IsIndex = False, IsImage = True\<rparr>),
      remote_Index = (\<lambda>r opts. Inl ''not an index''),
      remote_Image = (\<lambda>r opts. Inr \<lparr>Manifest = Inr ''03'', ImageDigest = Inr ''01''\<rparr>)\<rparr>"

definition ex_client :: "(string \<times> byte list) list \<Rightarrow> RepoClient" where
  "ex_client hashes = (\<lambda>ident. Inr \<lparr>Hashes = hashes\<rparr>)"

definition ex_failing_client :: "string \<Rightarrow> RepoClient" where
  "ex_failing_client msg = (\<lambda>ident. Inl msg)"

definition ex_service :: "string list \<Rightarrow> (string \<times> byte list) list \<Rightarrow> notaryService" where
  "ex_service allowed hashes =
     \<lparr>NotaryConfig = ''https://notary.example'',
      AllowedRegistries = allowed,
      RepoFactory = (\<lambda>repo cfg. Inr (ex_client hashes))\<rparr>"

definition ex_no_credentials :: "string \<rightharpoonup> AuthConfig" where
  "ex_no_credentials = Map.empty"

text \<open>A registry that refuses every descriptor fetch.\<close>

definition ex_closed_env :: env where
  "ex_closed_env = ex_env\<lparr>remote_Get := (\<lambda>r opts. Inl ''unauthorized'')\<rparr>"

text \<open>A trust authority whose client cannot be constructed, and one whose lookup fails.\<close>

definition ex_no_client_service :: "string \<Rightarrow> notaryService" where
  "ex_no_client_service msg =
     \<lparr>NotaryConfig = ''https://notary.example'',
      AllowedRegistries = [],
      RepoFactory = (\<lambda>repo cfg. Inl msg)\<rparr>"

definition ex_no_target_service :: "string \<Rightarrow> notaryService" where
  "ex_no_target_service msg =
     \<lparr>NotaryConfig = ''https://notary.example'',
      AllowedRegistries = [],
      RepoFactory = (\<lambda>repo cfg. Inr (ex_failing_client msg))\<rparr>"

text \<open>Credential records of the four kinds.\<close>

definition ex_credentials :: "string \<Rightarrow> string \<Rightarrow> string \<Rightarrow> string \<Rightarrow> AuthConfig" where
  "ex_credentials user password auth token =
     \<lparr>Username = user, Password = password, Auth = auth, RegistryToken = token\<rparr>"

text \<open>
  A webhook whose pod validator answers with the given result, for a pod without labels;
  its serializer writes the pod's name and its validation label, and its timeout is two
  seconds.
\<close>

definition ex_consts :: pkg_consts where
  "ex_consts =
     \<lparr>PodValidationLabel = ''validation-status'',
      ValidationStatusReject = ''reject'',
      ValidationStatusSuccess = ''success'',
      ValidationStatusPending = ''pending''\<rparr>"

definition ex_pod :: Pod where
  "ex_pod = \<lparr>PodName = ''app'', PodNamespace = ''default'', Labels = None,
              Images = [''registry.example/app:v1'']\<rparr>"

definition ex_marshal :: "Pod \<Rightarrow> string + string" where
  "ex_marshal pod =
     Inr (PodName pod @ '' '' @
          (case Labels pod of
             None \<Rightarrow> ''unlabelled''
           | Some m \<Rightarrow> (case m ''validation-status'' of None \<Rightarrow> ''unlabelled'' | Some v \<Rightarrow> v)))"

definition ex_webhook :: "ValidationResult \<Rightarrow> DefaultingWebHook" where
  "ex_webhook result =
     \<lparr>decoder_Decode = (\<lambda>req. Inr ex_pod),
      client_Get = (\<lambda>name. Inr \<lparr>NamespaceName = name\<rparr>),
      ValidatePod = (\<lambda>pod ns. Inr result),
      json_Marshal = ex_marshal,
      timeout = 2000000000\<rparr>"


definition ex_request :: Request where
  "ex_request = \<lparr>Kind = ''Pod'', Raw = ''app''\<rparr>"

section \<open>The label mapping of the specification\<close>

text \<open>
  The fixed mapping in the specification's words: \<open>Valid\<close> gives the success label,
  \<open>Invalid\<close> the reject label, and \<open>ServiceUnavailable\<close> or anything unrecognized the
  pending label.
\<close>

definition spec_label :: "pkg_consts \<Rightarrow> ValidationResult \<Rightarrow> string" where
  "spec_label k result =
     (if result = Valid then ValidationStatusSuccess k
      else if result = Invalid then ValidationStatusReject k
      else ValidationStatusPending k)"

section \<open>Properties of the library functions\<close>

lemma xor_byte_zero: "((x::byte) XOR y = 0) = (x = y)"
  by (metis bit.xor_left_self xor.right_neutral)

lemma unat_byte_less: "unat (d::byte) < 256"
  using unsigned_less [of d, where 'a = nat] by simp

lemma unat_ucast_byte: "unat (ucast (d::byte) :: 32 word) = unat d"
proof -
  have "unat d < 2 ^ 32" using unat_byte_less [of d] by simp
  then show ?thesis by (simp add: unsigned_ucast_eq take_bit_nat_eq_self)
qed

lemma drop_bit_31_small:
  assumes "unat (w :: 32 word) < 2 ^ 31"
  shows "drop_bit 31 w = 0"
proof -
  have "unat (drop_bit 31 w) = drop_bit 31 (unat w)"
    by (simp add: unat_drop_bit_eq)
  also have "\<dots> = unat w div 2 ^ 31"
    by (simp only: drop_bit_eq_div)
  also have "\<dots> = 0" using assms by simp
  finally have "unat (drop_bit 31 w) = 0" .
  then show ?thesis by (simp add: unat_eq_0)
qed

text \<open>\<open>ConstantTimeByteEq\<close> returns 1 on equal bytes and 0 on different ones.\<close>

lemma ConstantTimeByteEq_eq: "ConstantTimeByteEq x y = (if x = y then 1 else 0)"
proof (cases "x = y")
  case True
  then show ?thesis by (simp add: ConstantTimeByteEq_def)
next
  case False
  define d where "d = x XOR y"
  have d0: "d \<noteq> 0" using False by (simp add: d_def xor_byte_zero)
  have pos: "1 \<le> unat (ucast d :: 32 word)"
    using d0 by (simp add: unat_ucast_byte unat_gt_0 Suc_le_eq)
  have "unat ((ucast d :: 32 word) - 1) = unat (ucast d :: 32 word) - 1"
    using pos by (metis unat_1 word_le_nat_alt unat_sub)
  then have "unat ((ucast d :: 32 word) - 1) < 2 ^ 31"
    using unat_byte_less [of d] by (simp add: unat_ucast_byte)
  then have "drop_bit 31 ((ucast d :: 32 word) - 1) = 0"
    by (rule drop_bit_31_small)
  then show ?thesis using False by (simp add: ConstantTimeByteEq_def d_def)
qed

lemma ConstantTimeCompare_loop_zero:
  "length x = length y \<Longrightarrow> (ConstantTimeCompare_loop v x y = 0) = (v = 0 \<and> x = y)"
  by (induction v x y rule: ConstantTimeCompare_loop.induct)
     (auto simp: or_eq_0_iff xor_byte_zero)

text \<open>\<open>ConstantTimeCompare\<close> returns 1 exactly on equal byte sequences.\<close>

lemma ConstantTimeCompare_eq: "ConstantTimeCompare x y = (if x = y then 1 else 0)"
  by (auto simp: ConstantTimeCompare_def ConstantTimeByteEq_eq ConstantTimeCompare_loop_zero)

lemma HasPrefix_prefix: "HasPrefix s p = prefix p s"
proof
  assume "HasPrefix s p"
  then show "prefix p s" by (metis HasPrefix_def take_is_prefix)
next
  assume "prefix p s"
  then show "HasPrefix s p" by (auto simp: HasPrefix_def prefix_def)
qed

lemma Contains_sublist: "Contains s sub = sublist sub s"
  by (induction s) (auto simp: HasPrefix_prefix sublist_Cons_right)

lemma isImageAllowed_loop_iff:
  "isImageAllowed_loop ps img = (\<exists>p \<in> set ps. prefix p img)"
  by (induction ps) (auto simp: HasPrefix_prefix)

lemma isImageAllowed_iff:
  "isImageAllowed s img = (\<exists>p \<in> set (AllowedRegistries s). prefix p img)"
  by (simp add: isImageAllowed_def isImageAllowed_loop_iff)

lemma Split_not_Nil: "Split d c \<noteq> []"
  by (induction d) (auto split: list.splits)

lemma length_Split: "length (Split d c) = Suc (count_list d c)"
  by (induction d) (auto split: list.splits simp: Split_not_Nil)

lemma Split_no_sep: "c \<notin> set p \<Longrightarrow> Split p c = [p]"
  by (induction p) auto

lemma Split_append: "c \<notin> set u \<Longrightarrow> Split (u @ c # p) c = u # Split p c"
  by (induction u) auto

lemma Split_pair: "c \<notin> set u \<Longrightarrow> c \<notin> set p \<Longrightarrow> Split (u @ c # p) c = [u, p]"
  by (simp add: Split_append Split_no_sep)

lemma Split_not_pair:
  "count_list d c \<noteq> 1 \<Longrightarrow>
     (case Split d c of [user, password] \<Rightarrow> A user password | _ \<Rightarrow> B) = B"
  using length_Split [of d c] by (auto split: list.splits)

section \<open>The fixtures, evaluated\<close>

lemma ex_parse: "ParseReference ex_env ''registry.example/app:v1'' = Inr ex_ref"
  by (simp add: ex_env_def)

lemma ex_not_allowed:
  "\<not> isImageAllowed (ex_service [''internal.example/''] hs) ''registry.example/app:v1''"
  by (simp add: isImageAllowed_def ex_service_def HasPrefix_def)

lemma ex_notary:
  "getNotaryImageDigestHash (ex_service al [(a, d)]) ex_ref =
     (Inr d, [NewRepoClient ''registry.example/app'', GetTargetByName ''v1''])"
  by (simp add: getNotaryImageDigestHash_def ex_service_def ex_client_def ex_ref_def
      targetDigest_def)

lemma ex_registry:
  "getRepositoryDigestHash ex_env ex_ref cr =
     (Inr ([1], Some [3]), [RemoteGet ex_ref [], RemoteImage ex_ref []])"
  by (simp add: getRepositoryDigestHash_def ex_env_def digestByMediaType_def
      getImageDigestHash_def ex_hex_def)

section \<open>The claims\<close>

text \<open>
  Claim C1. When the image is not allow-listed, its string parses strictly and both
  digest fetches succeed, \<open>Validate\<close> succeeds if the registry's primary digest equals
  the expected digest byte for byte; otherwise it succeeds if a legacy manifest digest
  was returned (non-nil) and equals the expected digest; otherwise it returns the
  ValidationFailed error "unexpected image hash value".
\<close>

theorem Validate_digest_verdict:
  assumes "\<not> isImageAllowed s img"
    and "ParseReference w img = Inr ref"
    and "getNotaryImageDigestHash s ref = (Inr expected, t1)"
    and "getRepositoryDigestHash w ref creds = (Inr (primary, legacy), t2)"
  shows "fst (Validate w s img creds) =
           (if primary = expected then None
            else if legacy \<noteq> None \<and> legacy = Some expected then None
            else Some (ValidationFailedErr ''unexpected image hash value''))"
  using assms
  by (simp add: Validate_def ConstantTimeCompare_eq split: option.splits)

theorem Validate_digest_verdict_witness:
  "\<not> isImageAllowed (ex_service [''internal.example/''] [(''sha256'', [1])])
       ''registry.example/app:v1''
   \<and> ParseReference ex_env ''registry.example/app:v1'' = Inr ex_ref
   \<and> getRepositoryDigestHash ex_env ex_ref ex_no_credentials =
       (Inr ([1], Some [3]), [RemoteGet ex_ref [], RemoteImage ex_ref []])
   \<and> getNotaryImageDigestHash (ex_service [''internal.example/''] [(''sha256'', [1])]) ex_ref =
       (Inr [1], [NewRepoClient ''registry.example/app'', GetTargetByName ''v1''])
   \<and> fst (Validate ex_env (ex_service [''internal.example/''] [(''sha256'', [1])])
            ''registry.example/app:v1'' ex_no_credentials) = None
   \<and> getNotaryImageDigestHash (ex_service [''internal.example/''] [(''sha256'', [3])]) ex_ref =
       (Inr [3], [NewRepoClient ''registry.example/app'', GetTargetByName ''v1''])
   \<and> fst (Validate ex_env (ex_service [''internal.example/''] [(''sha256'', [3])])
            ''registry.example/app:v1'' ex_no_credentials) = None
   \<and> getNotaryImageDigestHash (ex_service [''internal.example/''] [(''sha256'', [2])]) ex_ref =
       (Inr [2], [NewRepoClient ''registry.example/app'', GetTargetByName ''v1''])
   \<and> fst (Validate ex_env (ex_service [''internal.example/''] [(''sha256'', [2])])
            ''registry.example/app:v1'' ex_no_credentials) =
       Some (ValidationFailedErr ''unexpected image hash value'')"
  using
    Validate_digest_verdict [where s = "ex_service [''internal.example/''] [(''sha256'', [1])]"
      and img = "''registry.example/app:v1''" and w = ex_env and ref = ex_ref
      and expected = "[1]" and creds = ex_no_credentials and primary = "[1]"
      and legacy = "Some [3]" and ?t2.0 = "[RemoteGet ex_ref [], RemoteImage ex_ref []]"
      and ?t1.0 = "[NewRepoClient ''registry.example/app'', GetTargetByName ''v1'']"]
    Validate_digest_verdict [where s = "ex_service [''internal.example/''] [(''sha256'', [3])]"
      and img = "''registry.example/app:v1''" and w = ex_env and ref = ex_ref
      and expected = "[3]" and creds = ex_no_credentials and primary = "[1]"
      and legacy = "Some [3]" and ?t2.0 = "[RemoteGet ex_ref [], RemoteImage ex_ref []]"
      and ?t1.0 = "[NewRepoClient ''registry.example/app'', GetTargetByName ''v1'']"]
    Validate_digest_verdict [where s = "ex_service [''internal.example/''] [(''sha256'', [2])]"
      and img = "''registry.example/app:v1''" and w = ex_env and ref = ex_ref
      and expected = "[2]" and creds = ex_no_credentials and primary = "[1]"
      and legacy = "Some [3]" and ?t2.0 = "[RemoteGet ex_ref [], RemoteImage ex_ref []]"
      and ?t1.0 = "[NewRepoClient ''registry.example/app'', GetTargetByName ''v1'']"]
    ex_not_allowed ex_parse ex_notary ex_registry
  by simp

text \<open>
  Claim C2. An image string that starts with one of the configured prefixes is validated
  successfully at once, with no outbound call to the trust authority or the registry;
  an image is allowed exactly when its full string starts with a configured prefix; and
  two configurations with the same prefixes, in any order, allow the same images.
\<close>

theorem Validate_allow_listed:
  "((\<exists>p \<in> set (AllowedRegistries s). prefix p img) \<longrightarrow> Validate w s img creds = (None, []))
   \<and> (isImageAllowed s img \<longleftrightarrow> (\<exists>p \<in> set (AllowedRegistries s). prefix p img))
   \<and> (set (AllowedRegistries s') = set (AllowedRegistries s) \<longrightarrow>
        isImageAllowed s' img = isImageAllowed s img)"
  by (simp add: Validate_def isImageAllowed_iff)

theorem Validate_allow_listed_witness:
  "''registry.example/'' \<in> set (AllowedRegistries
       (ex_service [''internal.example/'', ''registry.example/''] [(''sha256'', [2])]))
   \<and> prefix ''registry.example/'' ''registry.example/app:v1''
   \<and> Validate ex_env (ex_service [''internal.example/'', ''registry.example/''] [(''sha256'', [2])])
        ''registry.example/app:v1'' ex_no_credentials = (None, [])
   \<and> isImageAllowed (ex_service [''internal.example/'', ''registry.example/''] [(''sha256'', [2])])
        ''registry.example/app:v1''
   \<and> set (AllowedRegistries (ex_service [''registry.example/'', ''internal.example/''] []))
      = set (AllowedRegistries
          (ex_service [''internal.example/'', ''registry.example/''] [(''sha256'', [2])]))
   \<and> isImageAllowed (ex_service [''registry.example/'', ''internal.example/''] [])
        ''registry.example/app:v1''"
  using Validate_allow_listed
    [where s = "ex_service [''internal.example/'', ''registry.example/''] [(''sha256'', [2])]"
       and s' = "ex_service [''registry.example/'', ''internal.example/''] []"
       and img = "''registry.example/app:v1''" and w = ex_env and creds = ex_no_credentials]
  by (simp add: ex_service_def insert_commute)

text \<open>
  Claim C10. The allow-list check comes before strict parsing: a string that does not
  parse as an image reference is still validated successfully, with no outbound call,
  when it starts with a configured prefix; the validation failure for an unparsable
  image name is returned only for strings that no prefix matches.
\<close>

theorem Validate_allow_before_parse:
  assumes "ParseReference w img = Inl e"
  shows "Validate w s img creds =
     (if (\<exists>p \<in> set (AllowedRegistries s). prefix p img) then (None, [])
      else (Some (ValidationFailedErr (Wrap e ''image name could not be parsed'')), []))"
  using assms by (simp add: Validate_def isImageAllowed_iff)

theorem Validate_allow_before_parse_witness:
  "ParseReference ex_env ''internal.example/%%'' = Inl ''could not parse reference''
   \<and> ''internal.example/'' \<in> set (AllowedRegistries (ex_service [''internal.example/''] []))
   \<and> prefix ''internal.example/'' ''internal.example/%%''
   \<and> Validate ex_env (ex_service [''internal.example/''] []) ''internal.example/%%''
        ex_no_credentials = (None, [])
   \<and> Validate ex_env (ex_service [] []) ''internal.example/%%'' ex_no_credentials =
        (Some (ValidationFailedErr
           ''image name could not be parsed: could not parse reference''), [])"
  using
    Validate_allow_before_parse [where w = ex_env and img = "''internal.example/%%''"
      and e = "''could not parse reference''" and s = "ex_service [''internal.example/''] []"
      and creds = ex_no_credentials]
    Validate_allow_before_parse [where w = ex_env and img = "''internal.example/%%''"
      and e = "''could not parse reference''" and s = "ex_service [] []"
      and creds = ex_no_credentials]
  by (simp add: ex_env_def ex_service_def Wrap_def)

text \<open>
  Claim C3. When the image is not allow-listed, parses, and both digests are fetched,
  \<open>Validate\<close> succeeds if the registry digest equals the trust-authority digest; and
  when one of the two is the other with a single byte changed, \<open>Validate\<close> fails with
  "unexpected image hash value": equal length and a common part do not make the
  comparison succeed. The legacy manifest digest, when there is one, is the digest of
  the image's config, over which the image digest itself is computed; it is taken to
  differ from the trust-authority digest of the validation.
\<close>

theorem Validate_flip_byte:
  assumes "\<not> isImageAllowed s img"
    and "ParseReference w img = Inr ref"
    and "getNotaryImageDigestHash s ref = (Inr expected, t1)"
    and "getRepositoryDigestHash w ref creds = (Inr (primary, legacy), t2)"
  shows "(primary = expected \<longrightarrow> fst (Validate w s img creds) = None)
     \<and> (i < length d \<and> b \<noteq> d ! i
           \<and> (primary = d[i := b] \<and> expected = d \<or> primary = d \<and> expected = d[i := b])
           \<and> legacy \<noteq> Some expected \<longrightarrow>
          fst (Validate w s img creds) =
            Some (ValidationFailedErr ''unexpected image hash value''))"
proof -
  have changed: "d[i := b] \<noteq> d" if "i < length d" "b \<noteq> d ! i"
    using that by (metis nth_list_update_eq)
  have verdict: "fst (Validate w s img creds) =
           (if primary = expected \<or> legacy = Some expected then None
            else Some (ValidationFailedErr ''unexpected image hash value''))"
    using assms by (auto simp: Validate_def ConstantTimeCompare_eq split: option.splits)
  show ?thesis
    unfolding verdict using changed by (auto dest: sym)
qed

theorem Validate_flip_byte_witness:
  "\<not> isImageAllowed (ex_service [''internal.example/''] [(''sha256'', [1])])
       ''registry.example/app:v1''
   \<and> ParseReference ex_env ''registry.example/app:v1'' = Inr ex_ref
   \<and> getRepositoryDigestHash ex_env ex_ref ex_no_credentials =
       (Inr ([1], Some [3]), [RemoteGet ex_ref [], RemoteImage ex_ref []])
   \<and> getNotaryImageDigestHash (ex_service [''internal.example/''] [(''sha256'', [1])]) ex_ref =
       (Inr [1], [NewRepoClient ''registry.example/app'', GetTargetByName ''v1''])
   \<and> fst (Validate ex_env (ex_service [''internal.example/''] [(''sha256'', [1])])
            ''registry.example/app:v1'' ex_no_credentials) = None
   \<and> getNotaryImageDigestHash (ex_service [''internal.example/''] [(''sha256'', [2])]) ex_ref =
       (Inr [2], [NewRepoClient ''registry.example/app'', GetTargetByName ''v1''])
   \<and> (0 :: nat) < length [1 :: byte] \<and> (2 :: byte) \<noteq> [1] ! 0 \<and> [2 :: byte] = [1][0 := 2]
   \<and> Some [3] \<noteq> Some [2 :: byte]
   \<and> fst (Validate ex_env (ex_service [''internal.example/''] [(''sha256'', [2])])
            ''registry.example/app:v1'' ex_no_credentials) =
       Some (ValidationFailedErr ''unexpected image hash value'')"
  using
    Validate_flip_byte [where s = "ex_service [''internal.example/''] [(''sha256'', [1])]"
      and img = "''registry.example/app:v1''" and w = ex_env and ref = ex_ref
      and expected = "[1]" and creds = ex_no_credentials and primary = "[1]"
      and legacy = "Some [3]" and ?t2.0 = "[RemoteGet ex_ref [], RemoteImage ex_ref []]"
      and ?t1.0 = "[NewRepoClient ''registry.example/app'', GetTargetByName ''v1'']"
      and i = 0 and d = "[1]" and b = 2]
    Validate_flip_byte [where s = "ex_service [''internal.example/''] [(''sha256'', [2])]"
      and img = "''registry.example/app:v1''" and w = ex_env and ref = ex_ref
      and expected = "[2]" and creds = ex_no_credentials and primary = "[1]"
      and legacy = "Some [3]" and ?t2.0 = "[RemoteGet ex_ref [], RemoteImage ex_ref []]"
      and ?t1.0 = "[NewRepoClient ''registry.example/app'', GetTargetByName ''v1'']"
      and i = 0 and d = "[1]" and b = 2]
    ex_not_allowed ex_parse ex_notary ex_registry
  by simp

text \<open>
  Claim C5. When the trust authority's lookup returns a target without error: a target
  with no hash gives the ValidationFailed error "image hash is missing", a target with
  more than one hash gives the ValidationFailed error "more than one hash for image",
  a target with exactly one hash gives that hash as the digest, and a digest is given
  only then.
\<close>

theorem getNotaryImageDigestHash_hash_count:
  assumes "RepoFactory s (ContextName ref) (NotaryConfig s) = Inr c"
    and "c (Identifier ref) = Inr target"
  shows "(length (Hashes target) = 0 \<longrightarrow>
            fst (getNotaryImageDigestHash s ref) =
              Inl (ValidationFailedErr ''image hash is missing''))
     \<and> (length (Hashes target) > 1 \<longrightarrow>
            fst (getNotaryImageDigestHash s ref) =
              Inl (ValidationFailedErr ''more than one hash for image''))
     \<and> (Hashes target = [(alg, digest)] \<longrightarrow>
            fst (getNotaryImageDigestHash s ref) = Inr digest)
     \<and> ((\<exists>found. fst (getNotaryImageDigestHash s ref) = Inr found) \<longrightarrow>
            length (Hashes target) = 1)"
proof (cases "Hashes target")
  case Nil
  with assms show ?thesis
    by (simp add: getNotaryImageDigestHash_def targetDigest_def)
next
  case (Cons entry rest)
  with assms show ?thesis
    by (cases entry; cases rest) (simp_all add: getNotaryImageDigestHash_def targetDigest_def)
qed

theorem getNotaryImageDigestHash_hash_count_witness:
  "RepoFactory (ex_service [] []) (ContextName ex_ref) (NotaryConfig (ex_service [] []))
     = Inr (ex_client [])
   \<and> ex_client [] (Identifier ex_ref) = Inr \<lparr>Hashes = []\<rparr>
   \<and> fst (getNotaryImageDigestHash (ex_service [] []) ex_ref) =
       Inl (ValidationFailedErr ''image hash is missing'')
   \<and> ex_client [(''sha256'', [1]), (''sha512'', [2])] (Identifier ex_ref) =
       Inr \<lparr>Hashes = [(''sha256'', [1]), (''sha512'', [2])]\<rparr>
   \<and> fst (getNotaryImageDigestHash (ex_service [] [(''sha256'', [1]), (''sha512'', [2])]) ex_ref) =
       Inl (ValidationFailedErr ''more than one hash for image'')
   \<and> ex_client [(''sha256'', [1])] (Identifier ex_ref) = Inr \<lparr>Hashes = [(''sha256'', [1])]\<rparr>
   \<and> fst (getNotaryImageDigestHash (ex_service [] [(''sha256'', [1])]) ex_ref) = Inr [1]
   \<and> length (Hashes \<lparr>Hashes = [(''sha256'', [1 :: byte])]\<rparr>) = 1"
  using
    getNotaryImageDigestHash_hash_count [where s = "ex_service [] []" and ref = ex_ref
      and c = "ex_client []" and target = "\<lparr>Hashes = []\<rparr>"]
    getNotaryImageDigestHash_hash_count [where ref = ex_ref
      and s = "ex_service [] [(''sha256'', [1]), (''sha512'', [2])]"
      and c = "ex_client [(''sha256'', [1]), (''sha512'', [2])]"
      and target = "\<lparr>Hashes = [(''sha256'', [1]), (''sha512'', [2])]\<rparr>"]
    getNotaryImageDigestHash_hash_count [where ref = ex_ref
      and s = "ex_service [] [(''sha256'', [1])]" and c = "ex_client [(''sha256'', [1])]"
      and target = "\<lparr>Hashes = [(''sha256'', [1])]\<rparr>" and alg = "''sha256''"
      and digest = "[1]"]
  by (simp add: ex_service_def ex_client_def)

text \<open>
  Claim C6, as stated, fails for errors of client construction: a \<open>NewRepoClient\<close> error
  whose message says that the repository has no trust data is returned as an
  UnknownResult error.
\<close>

theorem NewRepoClient_error_counterexample:
  "sublist ''does not have trust data for''
     ''notary.example does not have trust data for registry.example/app''
   \<and> fst (getNotaryImageDigestHash
          (ex_no_client_service
             ''notary.example does not have trust data for registry.example/app'') ex_ref) =
       Inl (UnknownResultErr
              ''notary.example does not have trust data for registry.example/app'')"
  by (simp add: Contains_sublist [symmetric] HasPrefix_def getNotaryImageDigestHash_def
      ex_no_client_service_def)

text \<open>
  Claim C6, amended. An error of the trust authority's lookup (\<open>GetTargetByName\<close>) is
  returned as a ValidationFailed error when its message contains "does not have trust
  data for" or "No valid trust data for", and as an UnknownResult error otherwise; an
  error of client construction (\<open>NewRepoClient\<close>) is always returned as an UnknownResult
  error.
\<close>

theorem getNotaryImageDigestHash_errors:
  "(RepoFactory s (ContextName ref) (NotaryConfig s) = Inl e \<longrightarrow>
        fst (getNotaryImageDigestHash s ref) = Inl (UnknownResultErr e))
   \<and> (RepoFactory s (ContextName ref) (NotaryConfig s) = Inr c \<and> c (Identifier ref) = Inl e \<longrightarrow>
        fst (getNotaryImageDigestHash s ref) =
          Inl (if sublist ''does not have trust data for'' e
                  \<or> sublist ''No valid trust data for'' e
               then ValidationFailedErr e else UnknownResultErr e))"
  by (auto simp: getNotaryImageDigestHash_def parseNotaryErr_def Contains_sublist)

theorem getNotaryImageDigestHash_errors_witness:
  "RepoFactory (ex_no_client_service ''connection refused'') (ContextName ex_ref)
      (NotaryConfig (ex_no_client_service ''connection refused'')) = Inl ''connection refused''
   \<and> fst (getNotaryImageDigestHash (ex_no_client_service ''connection refused'') ex_ref) =
       Inl (UnknownResultErr ''connection refused'')
   \<and> RepoFactory (ex_no_target_service ''No valid trust data for v1'') (ContextName ex_ref)
        (NotaryConfig (ex_no_target_service ''No valid trust data for v1'')) =
       Inr (ex_failing_client ''No valid trust data for v1'')
   \<and> ex_failing_client ''No valid trust data for v1'' (Identifier ex_ref) =
       Inl ''No valid trust data for v1''
   \<and> fst (getNotaryImageDigestHash (ex_no_target_service ''No valid trust data for v1'') ex_ref) =
       Inl (ValidationFailedErr ''No valid trust data for v1'')
   \<and> ex_failing_client ''connection refused'' (Identifier ex_ref) = Inl ''connection refused''
   \<and> fst (getNotaryImageDigestHash (ex_no_target_service ''connection refused'') ex_ref) =
       Inl (UnknownResultErr ''connection refused'')"
  using
    getNotaryImageDigestHash_errors [where s = "ex_no_client_service ''connection refused''"
      and ref = ex_ref and e = "''connection refused''"]
    getNotaryImageDigestHash_errors [where s = "ex_no_target_service ''No valid trust data for v1''"
      and ref = ex_ref and e = "''No valid trust data for v1''"
      and c = "ex_failing_client ''No valid trust data for v1''"]
    getNotaryImageDigestHash_errors [where s = "ex_no_target_service ''connection refused''"
      and ref = ex_ref and e = "''connection refused''"
      and c = "ex_failing_client ''connection refused''"]
  by (simp add: ex_no_client_service_def ex_no_target_service_def ex_failing_client_def
      Contains_sublist [symmetric] HasPrefix_def)

text \<open>
  Claim C7. When the unauthenticated descriptor fetch fails and the credential map has
  no entry for the image's registry host, the registry digest fetch fails with an
  UnknownResult error (after that one outbound call), and not with a ValidationFailed
  error.
\<close>

theorem getRepositoryDigestHash_anonymous_failure:
  assumes "remote_Get w ref [] = Inl e"
    and "imagePullCredentials (RegistryStr ref) = None"
  shows "getRepositoryDigestHash w ref imagePullCredentials =
           (Inl (UnknownResultErr (Wrap e ''get image descriptor anonymously'')),
            [RemoteGet ref []])
         \<and> (\<forall>m. fst (getRepositoryDigestHash w ref imagePullCredentials) \<noteq>
                  Inl (ValidationFailedErr m))"
  using assms by (simp add: getRepositoryDigestHash_def)

theorem getRepositoryDigestHash_anonymous_failure_witness:
  "remote_Get ex_closed_env ex_ref [] = Inl ''unauthorized''
   \<and> ex_no_credentials (RegistryStr ex_ref) = None
   \<and> getRepositoryDigestHash ex_closed_env ex_ref ex_no_credentials =
       (Inl (UnknownResultErr ''get image descriptor anonymously: unauthorized''),
        [RemoteGet ex_ref []])"
  using getRepositoryDigestHash_anonymous_failure [where w = ex_closed_env and ref = ex_ref
      and e = "''unauthorized''" and imagePullCredentials = ex_no_credentials]
  by (simp add: ex_closed_env_def ex_no_credentials_def Wrap_def)

text \<open>
  Claim C8, as stated, fails for an auth string that is not base64: the record whose
  only field is the auth string \<open>%\<close> yields no pair, and its error is not the
  "invalid auth format" error but the ValidationFailed error "cannot decode base64
  encoded auth".
\<close>

theorem parseCredentials_undecodable_counterexample:
  "Username (ex_credentials [] [] ''%'' []) = []
   \<and> RegistryToken (ex_credentials [] [] ''%'' []) = []
   \<and> Auth (ex_credentials [] [] ''%'' []) = ''%''
   \<and> base64_DecodeString ex_env ''%'' = Inl ''illegal base64 data at input byte 0''
   \<and> parseCredentials ex_env (ex_credentials [] [] ''%'' []) =
       Inl (ValidationFailedErr
              ''cannot decode base64 encoded auth: illegal base64 data at input byte 0'')
   \<and> parseCredentials ex_env (ex_credentials [] [] ''%'' []) \<noteq>
       Inl (ValidationFailedErr ''invalid auth format, expected username:password form'')"
  by (simp add: parseCredentials_def ex_credentials_def ex_env_def ex_base64_def Wrap_def)

text \<open>
  Claim C8, amended. Credential resolution is a function of the credential record: a
  non-empty username and password give a basic authenticator of the two; otherwise a
  registry token gives a bearer authenticator; otherwise a non-empty auth string is
  base64-decoded: a string that does not decode gives the ValidationFailed error "cannot
  decode base64 encoded auth", decoded text that is one pair separated by a single colon
  gives a basic authenticator of the pair, and decoded text whose number of colons is
  not one gives the ValidationFailed error "invalid auth format"; a record with none of
  these gives the ValidationFailed error "unknown auth secret format"; and no error is
  an UnknownResult error.
\<close>

theorem parseCredentials_cases:
  "(Username c \<noteq> [] \<and> Password c \<noteq> [] \<longrightarrow>
      parseCredentials w c = Inr (Basic (Username c) (Password c)))
   \<and> (\<not> (Username c \<noteq> [] \<and> Password c \<noteq> []) \<and> RegistryToken c \<noteq> [] \<longrightarrow>
      parseCredentials w c = Inr (Bearer (RegistryToken c)))
   \<and> (\<not> (Username c \<noteq> [] \<and> Password c \<noteq> []) \<and> RegistryToken c = [] \<and> Auth c \<noteq> [] \<longrightarrow>
        (base64_DecodeString w (Auth c) = Inr (u @ CHR '':'' # p)
           \<and> CHR '':'' \<notin> set u \<and> CHR '':'' \<notin> set p \<longrightarrow>
             parseCredentials w c = Inr (Basic u p))
      \<and> (base64_DecodeString w (Auth c) = Inr d \<and> count_list d CHR '':'' \<noteq> 1 \<longrightarrow>
             parseCredentials w c =
               Inl (ValidationFailedErr
                      ''invalid auth format, expected username:password form''))
      \<and> (base64_DecodeString w (Auth c) = Inl e \<longrightarrow>
             parseCredentials w c =
               Inl (ValidationFailedErr (Wrap e ''cannot decode base64 encoded auth''))))
   \<and> (\<not> (Username c \<noteq> [] \<and> Password c \<noteq> []) \<and> RegistryToken c = [] \<and> Auth c = [] \<longrightarrow>
      parseCredentials w c = Inl (ValidationFailedErr ''unknown auth secret format''))
   \<and> (\<forall>m. parseCredentials w c \<noteq> Inl (UnknownResultErr m))"
proof -
  have "\<forall>m. parseCredentials w c \<noteq> Inl (UnknownResultErr m)"
    by (auto simp: parseCredentials_def split: sum.splits list.splits)
  then show ?thesis
    by (auto simp: parseCredentials_def Split_pair Split_not_pair)
qed

theorem parseCredentials_cases_witness:
  "parseCredentials ex_env (ex_credentials ''u'' ''p'' [] []) = Inr (Basic ''u'' ''p'')
   \<and> parseCredentials ex_env (ex_credentials ''u'' [] [] ''t0ken'') = Inr (Bearer ''t0ken'')
   \<and> base64_DecodeString ex_env ''dTpw'' = Inr (''u'' @ CHR '':'' # ''p'')
   \<and> parseCredentials ex_env (ex_credentials [] [] ''dTpw'' []) = Inr (Basic ''u'' ''p'')
   \<and> base64_DecodeString ex_env ''bm9wYWly'' = Inr ''nopair''
   \<and> count_list ''nopair'' CHR '':'' \<noteq> 1
   \<and> parseCredentials ex_env (ex_credentials [] [] ''bm9wYWly'' []) =
       Inl (ValidationFailedErr ''invalid auth format, expected username:password form'')
   \<and> base64_DecodeString ex_env ''%'' = Inl ''illegal base64 data at input byte 0''
   \<and> parseCredentials ex_env (ex_credentials [] [] ''%'' []) =
       Inl (ValidationFailedErr
              ''cannot decode base64 encoded auth: illegal base64 data at input byte 0'')
   \<and> parseCredentials ex_env (ex_credentials [] [] [] []) =
       Inl (ValidationFailedErr ''unknown auth secret format'')"
  using
    parseCredentials_cases [where w = ex_env and c = "ex_credentials ''u'' ''p'' [] []"]
    parseCredentials_cases [where w = ex_env and c = "ex_credentials ''u'' [] [] ''t0ken''"]
    parseCredentials_cases [where w = ex_env and c = "ex_credentials [] [] ''dTpw'' []"
      and u = "''u''" and p = "''p''"]
    parseCredentials_cases [where w = ex_env and c = "ex_credentials [] [] ''bm9wYWly'' []"
      and d = "''nopair''"]
    parseCredentials_cases [where w = ex_env and c = "ex_credentials [] [] ''%'' []"
      and e = "''illegal base64 data at input byte 0''"]
    parseCredentials_cases [where w = ex_env and c = "ex_credentials [] [] [] []"]
  by (simp add: ex_env_def ex_base64_def ex_credentials_def Wrap_def)

text \<open>
  Claim C4. For a request of kind Pod whose decoding, namespace lookup and pod validation
  succeed: the result \<open>NoAction\<close> allows the request with the message "validation is not
  enabled for pod" and no patch; any other result returns the patch response from the
  request's raw object to the serialized pod whose label map (created when absent) has
  the validation label set to the value of the fixed mapping, all else unchanged. The
  status labels are non-empty strings, and the labelled pod serializes.
\<close>

theorem handle_outcome:
  assumes "Kind req = PodType"
    and "decoder_Decode w req = Inr pod"
    and "client_Get w (PodNamespace pod) = Inr ns"
    and "ValidatePod w pod ns = Inr result"
    and "ValidationStatusSuccess k \<noteq> []"
    and "ValidationStatusReject k \<noteq> []"
    and "ValidationStatusPending k \<noteq> []"
  shows "(result = NoAction \<longrightarrow> handle k w req = Allowed ''validation is not enabled for pod'')
    \<and> (result \<noteq> NoAction
         \<and> json_Marshal w
              (pod\<lparr>Labels := Some ((case Labels pod of None \<Rightarrow> Map.empty | Some m \<Rightarrow> m)
                                     (PodValidationLabel k \<mapsto> spec_label k result))\<rparr>)
             = Inr fBytes \<longrightarrow>
          handle k w req = PatchResponseFromRaw (Raw req) fBytes)"
  using assms
  by (cases result) (auto simp: handle_def labelPod_def spec_label_def Let_def)

theorem handle_outcome_witness:
  "Kind ex_request = PodType
   \<and> decoder_Decode (ex_webhook NoAction) ex_request = Inr ex_pod
   \<and> client_Get (ex_webhook NoAction) (PodNamespace ex_pod) = Inr \<lparr>NamespaceName = ''default''\<rparr>
   \<and> ValidatePod (ex_webhook NoAction) ex_pod \<lparr>NamespaceName = ''default''\<rparr> = Inr NoAction
   \<and> ValidationStatusSuccess ex_consts \<noteq> [] \<and> ValidationStatusReject ex_consts \<noteq> []
   \<and> ValidationStatusPending ex_consts \<noteq> []
   \<and> handle ex_consts (ex_webhook NoAction) ex_request =
       Allowed ''validation is not enabled for pod''
   \<and> ValidatePod (ex_webhook Valid) ex_pod \<lparr>NamespaceName = ''default''\<rparr> = Inr Valid
   \<and> handle ex_consts (ex_webhook Valid) ex_request = PatchResponseFromRaw ''app'' ''app success''
   \<and> handle ex_consts (ex_webhook Invalid) ex_request = PatchResponseFromRaw ''app'' ''app reject''
   \<and> handle ex_consts (ex_webhook (Unrecognized ''other'')) ex_request =
       PatchResponseFromRaw ''app'' ''app pending''"
  using
    handle_outcome [where k = ex_consts and w = "ex_webhook NoAction" and req = ex_request
      and pod = ex_pod and ns = "\<lparr>NamespaceName = ''default''\<rparr>" and result = NoAction]
    handle_outcome [where k = ex_consts and w = "ex_webhook Valid" and req = ex_request
      and pod = ex_pod and ns = "\<lparr>NamespaceName = ''default''\<rparr>" and result = Valid
      and fBytes = "''app success''"]
    handle_outcome [where k = ex_consts and w = "ex_webhook Invalid" and req = ex_request
      and pod = ex_pod and ns = "\<lparr>NamespaceName = ''default''\<rparr>" and result = Invalid
      and fBytes = "''app reject''"]
    handle_outcome [where k = ex_consts and w = "ex_webhook (Unrecognized ''other'')"
      and req = ex_request and pod = ex_pod and ns = "\<lparr>NamespaceName = ''default''\<rparr>"
      and result = "Unrecognized ''other''" and fBytes = "''app pending''"]
  by (simp add: ex_consts_def ex_webhook_def ex_request_def ex_pod_def ex_marshal_def
      PodType_def spec_label_def)



end
